theory Spec2Isabelle
  imports Main
begin

section \<open>Python values\<close>

text \<open>
  The event of the custom resource, the resource properties and the responses of the
  S3 client are JSON data, held in Python as \<open>None\<close>, \<open>bool\<close>, \<open>int\<close>, \<open>str\<close>, \<open>list\<close>
  and \<open>dict\<close>. A \<open>dict\<close> is an association list in insertion order; its keys are
  strings. Numbers are integers (CloudFormation delivers scalar properties as strings).
  Strings are Isabelle strings.
\<close>

datatype json =
    JNull
  | JBool bool
  | JInt int
  | JStr string
  | JList "json list"
  | JDict "(string \<times> json) list"

type_synonym dict = "(string \<times> json) list"

text \<open>\<open>d.get(k, None)\<close>: the value under \<open>k\<close>, \<open>None\<close> when the key is absent.\<close>

definition dict_get :: "dict \<Rightarrow> string \<Rightarrow> json" where
  "dict_get d k = (case map_of d k of None \<Rightarrow> JNull | Some v \<Rightarrow> v)"

text \<open>Truth value testing, as \<open>if x\<close> and \<open>not x\<close> do it.\<close>

fun truthy :: "json \<Rightarrow> bool" where
  "truthy JNull = False"
| "truthy (JBool b) = b"
| "truthy (JInt i) = (i \<noteq> 0)"
| "truthy (JStr s) = (s \<noteq> [])"
| "truthy (JList xs) = (xs \<noteq> [])"
| "truthy (JDict d) = (d \<noteq> [])"

text \<open>\<open>isinstance(x, list)\<close>.\<close>

fun is_list :: "json \<Rightarrow> bool" where
  "is_list (JList xs) = True"
| "is_list _ = False"

text \<open>\<open>len(x)\<close>; \<open>None\<close>, booleans and integers have no length (\<open>TypeError\<close>).\<close>

fun py_len :: "json \<Rightarrow> nat option" where
  "py_len (JStr s) = Some (length s)"
| "py_len (JList xs) = Some (length xs)"
| "py_len (JDict d) = Some (length d)"
| "py_len _ = None"

text \<open>
  The elements a \<open>for\<close> loop visits: the items of a list, the characters of a string,
  the keys of a dict; \<open>None\<close>, booleans and integers are not iterable (\<open>TypeError\<close>).
\<close>

fun py_iter :: "json \<Rightarrow> json list option" where
  "py_iter (JList xs) = Some xs"
| "py_iter (JStr s) = Some (map (\<lambda>c. JStr [c]) s)"
| "py_iter (JDict d) = Some (map (\<lambda>kv. JStr (fst kv)) d)"
| "py_iter _ = None"

subsection \<open>\<open>str\<close>, \<open>repr\<close> and \<open>str.lower\<close>\<close>

fun join :: "string \<Rightarrow> string list \<Rightarrow> string" where
  "join sep [] = []"
| "join sep [x] = x"
| "join sep (x # y # ys) = x @ sep @ join sep (y # ys)"

definition digit_char :: "nat \<Rightarrow> char" where
  "digit_char d = ''0123456789abcdef'' ! d"

function str_nat :: "nat \<Rightarrow> string" where
  "str_nat n = (if n < 10 then [digit_char n] else str_nat (n div 10) @ [digit_char (n mod 10)])"
  by pat_completeness auto
termination
  by (relation "measure id") auto

definition str_int :: "int \<Rightarrow> string" where
  "str_int i = (if i < 0 then CHR ''-'' # str_nat (nat (- i)) else str_nat (nat i))"

text \<open>
  \<open>repr\<close> of a string: single quotes, unless the string has a single quote and no
  double quote; backslash, the chosen quote, tab, newline and carriage return are
  escaped, the other control characters are written \<open>\xNN\<close>. Characters beyond ASCII
  are taken as printable and copied.
\<close>

definition repr_char :: "char \<Rightarrow> char \<Rightarrow> string" where
  "repr_char quote c =
     (if c = quote \<or> c = CHR 0x5C then [CHR 0x5C, c]
      else if c = CHR 0x09 then [CHR 0x5C, CHR ''t'']
      else if c = CHR 0x0A then [CHR 0x5C, CHR ''n'']
      else if c = CHR 0x0D then [CHR 0x5C, CHR ''r'']
      else if (of_char c :: nat) < 32 \<or> c = CHR 0x7F
        then [CHR 0x5C, CHR ''x'', digit_char (of_char c div 16), digit_char (of_char c mod 16)]
      else [c])"

definition repr_str :: "string \<Rightarrow> string" where
  "repr_str s =
     (let quote = (if CHR 0x27 \<in> set s \<and> CHR 0x22 \<notin> set s then CHR 0x22 else CHR 0x27)
      in [quote] @ concat (map (repr_char quote) s) @ [quote])"

fun py_repr :: "json \<Rightarrow> string" where
  "py_repr JNull = ''None''"
| "py_repr (JBool b) = (if b then ''True'' else ''False'')"
| "py_repr (JInt i) = str_int i"
| "py_repr (JStr s) = repr_str s"
| "py_repr (JList xs) = ''['' @ join '', '' (map py_repr xs) @ '']''"
| "py_repr (JDict d) =
     ''{'' @ join '', '' (map (\<lambda>kv. repr_str (fst kv) @ '': '' @ py_repr (snd kv)) d) @ ''}''"

text \<open>\<open>str(x)\<close>, which is also what an f-string puts in place of \<open>{x}\<close>.\<close>

fun py_str :: "json \<Rightarrow> string" where
  "py_str (JStr s) = s"
| "py_str v = py_repr v"

text \<open>
  \<open>str.lower\<close> on the ASCII letters; every other character is left as it is (no
  character beyond ASCII lowers to one of the letters of \<open>true\<close>).
\<close>

definition lower_char :: "char \<Rightarrow> char" where
  "lower_char c =
     (case map_of (zip ''ABCDEFGHIJKLMNOPQRSTUVWXYZ'' ''abcdefghijklmnopqrstuvwxyz'') c of
        None \<Rightarrow> c
      | Some l \<Rightarrow> l)"

definition lower :: "string \<Rightarrow> string" where
  "lower s = map lower_char s"

section \<open>Exceptions and the S3 client\<close>

text \<open>
  The exceptions of \<open>app.py\<close>: the two \<open>Exception\<close>s and the \<open>ValueError\<close> it raises
  itself, with their messages; the \<open>KeyError\<close>, \<open>AttributeError\<close> and \<open>TypeError\<close> of
  Python's own operations; the \<open>ClientError\<close> of the S3 client, with its error code.
\<close>

datatype exc =
    Exception string
  | ValueError string
  | KeyError string
  | AttributeError
  | TypeError
  | ClientError string

text \<open>
  \<open>boto3.client('s3')\<close> is the external Bucket Store. It is a parameter of the model:
  three operations over a service state \<open>'s\<close>, each of which returns or raises. The
  world of one invocation is the service state and the log of the calls made so far.
\<close>

record 's s3_client =
  get_bucket_tagging :: "json \<Rightarrow> 's \<Rightarrow> (exc + dict) \<times> 's"
  put_bucket_policy :: "json \<Rightarrow> string \<Rightarrow> 's \<Rightarrow> (exc + unit) \<times> 's"
  delete_bucket_policy :: "json \<Rightarrow> 's \<Rightarrow> (exc + unit) \<times> 's"

datatype s3_call =
    GetBucketTagging json
  | PutBucketPolicy json string
  | DeleteBucketPolicy json

record 's world =
  service :: 's
  calls :: "s3_call list"

definition s3_get_bucket_tagging :: "'s s3_client \<Rightarrow> json \<Rightarrow> 's world \<Rightarrow> (exc + dict) \<times> 's world" where
  "s3_get_bucket_tagging s3 bucket w =
     (case get_bucket_tagging s3 bucket (service w) of
        (r, s') \<Rightarrow> (r, \<lparr>service = s', calls = calls w @ [GetBucketTagging bucket]\<rparr>))"

definition s3_put_bucket_policy ::
    "'s s3_client \<Rightarrow> json \<Rightarrow> string \<Rightarrow> 's world \<Rightarrow> (exc + unit) \<times> 's world" where
  "s3_put_bucket_policy s3 bucket pol w =
     (case put_bucket_policy s3 bucket pol (service w) of
        (r, s') \<Rightarrow> (r, \<lparr>service = s', calls = calls w @ [PutBucketPolicy bucket pol]\<rparr>))"

definition s3_delete_bucket_policy :: "'s s3_client \<Rightarrow> json \<Rightarrow> 's world \<Rightarrow> (exc + unit) \<times> 's world" where
  "s3_delete_bucket_policy s3 bucket w =
     (case delete_bucket_policy s3 bucket (service w) of
        (r, s') \<Rightarrow> (r, \<lparr>service = s', calls = calls w @ [DeleteBucketPolicy bucket]\<rparr>))"

text \<open>The Lambda context; only its request id is read.\<close>

record lambda_context =
  aws_request_id :: string

section \<open>The program\<close>

text \<open>
  Logging is not modelled. The \<open>except\<close> branches of \<open>get_bucket_tags\<close> and
  \<open>attach_policy\<close> log \<open>e.response['Error']['Message']\<close> before they raise the error
  again; that lookup is taken to succeed, as it does on the errors the client builds
  from a response of the service.
\<close>

subsection \<open>\<open>get_params\<close>\<close>

definition get_params :: "dict \<Rightarrow> exc + json \<times> json list \<times> bool" where
  "get_params event =
     (case map_of event ''ResourceProperties'' of
        None \<Rightarrow> Inl (KeyError ''ResourceProperties'')
      | Some (JDict parameters) \<Rightarrow>
          (let bucket_name = dict_get parameters ''BucketName'' in
           if bucket_name = JNull then Inl (Exception ''Required parameters: BucketName'')
           else
             let extra_principals = dict_get parameters ''ExtraPrincipalArns'';
                 extra_principals =
                   (if \<not> truthy extra_principals then []
                    else if \<not> is_list extra_principals then [extra_principals]
                    else (case extra_principals of JList xs \<Rightarrow> xs | _ \<Rightarrow> []));
                 extra_principals = filter truthy extra_principals;
                 require_encryption =
                   py_str (case map_of parameters ''RequireEncryption'' of
                             None \<Rightarrow> JStr ''false''
                           | Some v \<Rightarrow> v);
                 require_encryption = (lower require_encryption = ''true'')
             in Inr (bucket_name, extra_principals, require_encryption))
      | Some _ \<Rightarrow> Inl AttributeError)"

subsection \<open>\<open>get_bucket_tags\<close> and \<open>get_principal_tag\<close>\<close>

definition get_bucket_tags :: "'s s3_client \<Rightarrow> json \<Rightarrow> 's world \<Rightarrow> (exc + json) \<times> 's world" where
  "get_bucket_tags s3 bucket w =
     (case s3_get_bucket_tagging s3 bucket w of
        (Inl e, w') \<Rightarrow> (Inl e, w')
      | (Inr response, w') \<Rightarrow>
          (let tags = dict_get response ''TagSet'';
               no_tags = Exception (''No tags returned, received: '' @ py_str (JDict response))
           in if \<not> truthy tags then (Inl no_tags, w')
              else (case py_len tags of
                      None \<Rightarrow> (Inl TypeError, w')
                    | Some n \<Rightarrow> if n = 0 then (Inl no_tags, w') else (Inr tags, w'))))"

definition principal_tag_name :: string where
  "principal_tag_name = ''aws:servicecatalog:provisioningPrincipalArn''"

text \<open>
  The \<open>for ... else\<close> loop over the tags: it returns at the first tag whose \<open>Key\<close> is the
  principal tag's name, and raises \<open>ValueError\<close> when the tags are exhausted. A tag
  that is not a dict has no \<open>get\<close> (\<open>AttributeError\<close>).
\<close>

fun find_principal_tag :: "json list \<Rightarrow> exc + json" where
  "find_principal_tag [] =
     Inl (ValueError (''Could not derive a value for '' @ principal_tag_name @ '' from tags''))"
| "find_principal_tag (tag # rest) =
     (case tag of
        JDict t \<Rightarrow>
          if dict_get t ''Key'' = JStr principal_tag_name then Inr (dict_get t ''Value'')
          else find_principal_tag rest
      | _ \<Rightarrow> Inl AttributeError)"

definition get_principal_tag :: "json \<Rightarrow> exc + json" where
  "get_principal_tag tags =
     (case py_iter tags of
        None \<Rightarrow> Inl TypeError
      | Some ts \<Rightarrow> find_principal_tag ts)"

subsection \<open>\<open>combine_principals\<close>\<close>

definition combine_principals :: "'a \<Rightarrow> 'a list option \<Rightarrow> 'a list" where
  "combine_principals principal' extra_principals =
     (let principals = [principal']
      in case extra_principals of
           None \<Rightarrow> principals
         | Some extras \<Rightarrow> extras @ principals)"

subsection \<open>\<open>create_policy_document\<close>\<close>

text \<open>
  \<open>policy\<close> is the dict that \<open>create_policy_document\<close> builds, \<open>json.dumps\<close> the
  serializer it is returned through. The serializer is the standard library's; it is a
  parameter \<open>dumps\<close> of the model.
\<close>

definition policy :: "json \<Rightarrow> json list \<Rightarrow> bool \<Rightarrow> json" where
  "policy bucket_name principals require_encrypted =
     (let bucket_arn = ''arn:aws:s3:::'' @ py_str bucket_name;
          bucket_objects_arn = bucket_arn @ ''/*'';
          statement =
            [JDict
               [(''Sid'', JStr ''ReadAccess''),
                (''Effect'', JStr ''Allow''),
                (''Principal'', JDict [(''AWS'', JList principals)]),
                (''Action'', JList [JStr ''s3:ListBucket*'', JStr ''s3:GetBucketLocation'']),
                (''Resource'', JStr bucket_arn)],
             JDict
               [(''Sid'', JStr ''WriteAccess''),
                (''Effect'', JStr ''Allow''),
                (''Principal'', JDict [(''AWS'', JList principals)]),
                (''Action'', JList [JStr ''s3:*Object*'', JStr ''s3:*MultipartUpload*'']),
                (''Resource'', JStr bucket_objects_arn)]];
          additional_statements =
            [JDict
               [(''Sid'', JStr ''DenyIncorrectEncryptionHeader''),
                (''Effect'', JStr ''Deny''),
                (''Principal'', JDict [(''AWS'', JList principals)]),
                (''Action'', JStr ''s3:PutObject''),
                (''Resource'', JStr bucket_objects_arn),
                (''Condition'',
                   JDict [(''StringNotEquals'',
                           JDict [(''s3:x-amz-server-side-encryption'', JStr ''AES256'')])])],
             JDict
               [(''Sid'', JStr ''DenyUnEncryptedObjectUploads''),
                (''Effect'', JStr ''Deny''),
                (''Principal'', JDict [(''AWS'', JList principals)]),
                (''Action'', JStr ''s3:PutObject''),
                (''Resource'', JStr bucket_objects_arn),
                (''Condition'',
                   JDict [(''Null'',
                           JDict [(''s3:x-amz-server-side-encryption'', JStr ''true'')])])]]
      in JDict
           [(''Version'', JStr ''2012-10-17''),
            (''Statement'',
               JList (if require_encrypted then statement @ additional_statements
                      else statement))])"

definition create_policy_document :: "(json \<Rightarrow> string) \<Rightarrow> json \<Rightarrow> json list \<Rightarrow> bool \<Rightarrow> string" where
  "create_policy_document dumps bucket_name principals require_encrypted =
     dumps (policy bucket_name principals require_encrypted)"

subsection \<open>\<open>attach_policy\<close>, \<open>create\<close> and \<open>delete\<close>\<close>

definition attach_policy :: "'s s3_client \<Rightarrow> json \<Rightarrow> string \<Rightarrow> 's world \<Rightarrow> (exc + unit) \<times> 's world" where
  "attach_policy s3 bucket_name policy_document w =
     (case s3_put_bucket_policy s3 bucket_name policy_document w of
        (Inl e, w') \<Rightarrow> (Inl e, w')
      | (Inr u, w') \<Rightarrow> (Inr (), w'))"

text \<open>
  \<open>event[k]\<close>: a missing key raises \<open>KeyError\<close>. \<open>create\<close> is registered for the
  Create and for the Update events, \<open>delete\<close> for the Delete events.
\<close>

definition subscript :: "dict \<Rightarrow> string \<Rightarrow> exc + json" where
  "subscript d k = (case map_of d k of None \<Rightarrow> Inl (KeyError k) | Some v \<Rightarrow> Inr v)"

definition create ::
    "'s s3_client \<Rightarrow> (json \<Rightarrow> string) \<Rightarrow> dict \<Rightarrow> lambda_context \<Rightarrow> 's world \<Rightarrow> (exc + json) \<times> 's world" where
  "create s3 dumps event ctx w =
     (case get_params event of
        Inl e \<Rightarrow> (Inl e, w)
      | Inr (bucket_name, extra_principals, require_encryption) \<Rightarrow>
     (case get_bucket_tags s3 bucket_name w of
        (Inl e, w1) \<Rightarrow> (Inl e, w1)
      | (Inr tags, w1) \<Rightarrow>
     (case get_principal_tag tags of
        Inl e \<Rightarrow> (Inl e, w1)
      | Inr principal_arn \<Rightarrow>
     (let principals = combine_principals principal_arn (Some extra_principals);
          policy_document =
            create_policy_document dumps bucket_name principals require_encryption
      in
     (case attach_policy s3 bucket_name policy_document w1 of
        (Inl e, w2) \<Rightarrow> (Inl e, w2)
      | (Inr u, w2) \<Rightarrow>
     (let request_id = aws_request_id ctx;
          physical_resource_id =
            ''BucketPolicy_'' @ py_str bucket_name @ ''_'' @ request_id
      in
     (case subscript event ''RequestType'' of
        Inl e \<Rightarrow> (Inl e, w2)
      | Inr request_type \<Rightarrow>
          if request_type = JStr ''Update'' then (subscript event ''PhysicalResourceId'', w2)
          else (Inr (JStr physical_resource_id), w2))))))))"

definition delete ::
    "'s s3_client \<Rightarrow> dict \<Rightarrow> lambda_context \<Rightarrow> 's world \<Rightarrow> (exc + json) \<times> 's world" where
  "delete s3 event ctx w =
     (case get_params event of
        Inl e \<Rightarrow> (Inl e, w)
      | Inr (bucket_name, extra_principals, require_encryption) \<Rightarrow>
     (case s3_delete_bucket_policy s3 bucket_name w of
        (Inl e, w1) \<Rightarrow> (Inl e, w1)
      | (Inr u, w1) \<Rightarrow> (subscript event ''PhysicalResourceId'', w1)))"

section \<open>Instances to run the model on\<close>

text \<open>
  \<open>json.dumps\<close> with its default separators, for ASCII strings: the quote and the
  backslash are escaped with a backslash, the control characters as \<open>\n\<close>, \<open>\r\<close>,
  \<open>\t\<close>, \<open>\b\<close>, \<open>\f\<close> or \<open>\u00XX\<close>. (Characters beyond ASCII, which \<open>json.dumps\<close>
  writes as \<open>\uXXXX\<close>, are copied here; the examples have none.)
\<close>

definition dumps_char :: "char \<Rightarrow> string" where
  "dumps_char c =
     (if c = CHR 0x22 \<or> c = CHR 0x5C then [CHR 0x5C, c]
      else if c = CHR 0x0A then [CHR 0x5C, CHR ''n'']
      else if c = CHR 0x0D then [CHR 0x5C, CHR ''r'']
      else if c = CHR 0x09 then [CHR 0x5C, CHR ''t'']
      else if c = CHR 0x08 then [CHR 0x5C, CHR ''b'']
      else if c = CHR 0x0C then [CHR 0x5C, CHR ''f'']
      else if (of_char c :: nat) < 32 \<or> c = CHR 0x7F
        then [CHR 0x5C, CHR ''u'', CHR ''0'', CHR ''0'',
              digit_char (of_char c div 16), digit_char (of_char c mod 16)]
      else [c])"

definition dumps_str :: "string \<Rightarrow> string" where
  "dumps_str s = [CHR 0x22] @ concat (map dumps_char s) @ [CHR 0x22]"

fun json_dumps :: "json \<Rightarrow> string" where
  "json_dumps JNull = ''null''"
| "json_dumps (JBool b) = (if b then ''true'' else ''false'')"
| "json_dumps (JInt i) = str_int i"
| "json_dumps (JStr s) = dumps_str s"
| "json_dumps (JList xs) = ''['' @ join '', '' (map json_dumps xs) @ '']''"
| "json_dumps (JDict d) =
     ''{'' @ join '', '' (map (\<lambda>kv. dumps_str (fst kv) @ '': '' @ json_dumps (snd kv)) d) @ ''}''"

text \<open>
  A Bucket Store with one bucket: the service state is the policy attached to it, if
  any. Every operation on another bucket is refused (\<open>NoSuchBucket\<close>). The tagging
  response of the bucket is fixed; attaching overwrites the policy; detaching a policy
  that is not there is reported as the error \<open>NoSuchBucketPolicy\<close>.
\<close>

definition one_bucket :: "string \<Rightarrow> dict \<Rightarrow> string option s3_client" where
  "one_bucket name tagging =
     \<lparr>get_bucket_tagging =
        (\<lambda>bucket s. if bucket = JStr name then (Inr tagging, s)
                     else (Inl (ClientError ''NoSuchBucket''), s)),
      put_bucket_policy =
        (\<lambda>bucket pol s. if bucket = JStr name then (Inr (), Some pol)
                         else (Inl (ClientError ''NoSuchBucket''), s)),
      delete_bucket_policy =
        (\<lambda>bucket s. if bucket = JStr name
                     then (case s of
                             None \<Rightarrow> (Inl (ClientError ''NoSuchBucketPolicy''), s)
                           | Some pol \<Rightarrow> (Inr (), None))
                     else (Inl (ClientError ''NoSuchBucket''), s))\<rparr>"

definition owner_tagging :: dict where
  "owner_tagging =
     [(''TagSet'',
       JList [JDict [(''Key'', JStr ''Name''), (''Value'', JStr ''my-bucket'')],
              JDict [(''Key'', JStr ''aws:servicecatalog:provisioningPrincipalArn''),
                     (''Value'', JStr ''arn:aws:iam::111:role/Owner'')]])]"

definition start :: "'s \<Rightarrow> 's world" where
  "start s = \<lparr>service = s, calls = []\<rparr>"

text \<open>
  Events of the three request types for a resource with the given properties; an Update
  and a Delete event carry the physical id \<open>X\<close> of the resource.
\<close>

definition create_event :: "dict \<Rightarrow> dict" where
  "create_event properties =
     [(''RequestType'', JStr ''Create''),
      (''ResourceProperties'', JDict properties)]"

definition update_event :: "dict \<Rightarrow> dict" where
  "update_event properties =
     [(''RequestType'', JStr ''Update''),
      (''PhysicalResourceId'', JStr ''X''),
      (''ResourceProperties'', JDict properties)]"

definition delete_event :: "dict \<Rightarrow> dict" where
  "delete_event properties =
     [(''RequestType'', JStr ''Delete''),
      (''PhysicalResourceId'', JStr ''X''),
      (''ResourceProperties'', JDict properties)]"

section \<open>Reading a policy document\<close>

text \<open>The statement list of a document, and the field of a statement under a key.\<close>

definition statements :: "json \<Rightarrow> json list" where
  "statements doc =
     (case doc of
        JDict d \<Rightarrow> (case map_of d ''Statement'' of Some (JList ss) \<Rightarrow> ss | _ \<Rightarrow> [])
      | _ \<Rightarrow> [])"

definition field :: "string \<Rightarrow> json \<Rightarrow> json option" where
  "field k st = (case st of JDict d \<Rightarrow> map_of d k | _ \<Rightarrow> None)"

section \<open>Equality of strings up to case\<close>

text \<open>
  Two characters are the same letter when they are equal or are the upper-case and the
  lower-case form of one ASCII letter; two strings are equal ignoring case when they have
  the same length and the same letter at every position.
\<close>

definition same_letter :: "char \<Rightarrow> char \<Rightarrow> bool" where
  "same_letter a b =
     (let pairs = zip ''ABCDEFGHIJKLMNOPQRSTUVWXYZ'' ''abcdefghijklmnopqrstuvwxyz''
      in a = b \<or> (a, b) \<in> set pairs \<or> (b, a) \<in> set pairs)"

definition equal_ignoring_case :: "string \<Rightarrow> string \<Rightarrow> bool" where
  "equal_ignoring_case s t = list_all2 same_letter s t"

section \<open>The policy document\<close>

text \<open>
  C1. Without encryption, for every bucket name and every principal list,
  \<open>create_policy_document\<close> returns the serialized document whose statement list has
  exactly two statements, \<open>ReadAccess\<close> then \<open>WriteAccess\<close>; the resource of the first
  is \<open>arn:aws:s3:::\<close> followed by the bucket name, the resource of the second is that
  string followed by \<open>/*\<close>.
\<close>

theorem policy_without_encryption:
  "create_policy_document dumps (JStr b) ps False = dumps (policy (JStr b) ps False) \<and>
   length (statements (policy (JStr b) ps False)) = 2 \<and>
   map (field ''Sid'') (statements (policy (JStr b) ps False)) =
     [Some (JStr ''ReadAccess''), Some (JStr ''WriteAccess'')] \<and>
   map (field ''Resource'') (statements (policy (JStr b) ps False)) =
     [Some (JStr (''arn:aws:s3:::'' @ b)), Some (JStr ((''arn:aws:s3:::'' @ b) @ ''/*''))]"
  by (simp add: create_policy_document_def statements_def policy_def field_def Let_def)

text \<open>
  C2. With encryption required, the document has exactly four statements: the two of
  the document without encryption, then \<open>DenyIncorrectEncryptionHeader\<close> and
  \<open>DenyUnEncryptedObjectUploads\<close>, in that order. Both have the effect \<open>Deny\<close> and the
  object resource (the bucket ARN followed by \<open>/*\<close>); the first applies when the
  server-side-encryption header is not \<open>AES256\<close> (\<open>StringNotEquals\<close>), the second when
  the header is absent (\<open>Null\<close> is \<open>true\<close>).
\<close>

theorem policy_with_encryption:
  "create_policy_document dumps (JStr b) ps True = dumps (policy (JStr b) ps True) \<and>
   length (statements (policy (JStr b) ps True)) = 4 \<and>
   take 2 (statements (policy (JStr b) ps True)) = statements (policy (JStr b) ps False) \<and>
   map (field ''Sid'') (statements (policy (JStr b) ps True)) =
     [Some (JStr ''ReadAccess''), Some (JStr ''WriteAccess''),
      Some (JStr ''DenyIncorrectEncryptionHeader''),
      Some (JStr ''DenyUnEncryptedObjectUploads'')] \<and>
   map (field ''Effect'') (drop 2 (statements (policy (JStr b) ps True))) =
     [Some (JStr ''Deny''), Some (JStr ''Deny'')] \<and>
   map (field ''Resource'') (drop 2 (statements (policy (JStr b) ps True))) =
     [Some (JStr ((''arn:aws:s3:::'' @ b) @ ''/*'')),
      Some (JStr ((''arn:aws:s3:::'' @ b) @ ''/*''))] \<and>
   map (field ''Condition'') (drop 2 (statements (policy (JStr b) ps True))) =
     [Some (JDict [(''StringNotEquals'',
                    JDict [(''s3:x-amz-server-side-encryption'', JStr ''AES256'')])]),
      Some (JDict [(''Null'',
                    JDict [(''s3:x-amz-server-side-encryption'', JStr ''true'')])])]"
  by (simp add: create_policy_document_def statements_def policy_def field_def Let_def)

text \<open>
  C10. In every document built with encryption required, the \<open>Action\<close> of each of the
  two \<open>Deny\<close> statements is the single string \<open>s3:PutObject\<close>, not a list, while the
  \<open>Action\<close> of each of the two \<open>Allow\<close> statements is a list of strings.
\<close>

theorem action_field_shapes:
  "map (field ''Effect'') (statements (policy bucket_name ps True)) =
     [Some (JStr ''Allow''), Some (JStr ''Allow''), Some (JStr ''Deny''), Some (JStr ''Deny'')] \<and>
   map (field ''Action'') (statements (policy bucket_name ps True)) =
     [Some (JList [JStr ''s3:ListBucket*'', JStr ''s3:GetBucketLocation'']),
      Some (JList [JStr ''s3:*Object*'', JStr ''s3:*MultipartUpload*'']),
      Some (JStr ''s3:PutObject''),
      Some (JStr ''s3:PutObject'')]"
  by (simp add: statements_def policy_def field_def Let_def)

section \<open>Principals\<close>

text \<open>
  C6. For every owner principal and every list of extra principals,
  \<open>combine_principals\<close> returns the extras in their order followed by the owner. Nothing
  is removed: the result is one longer than the extras, and the owner occurs in it once
  more than in the extras.
\<close>

theorem combine_principals_appends_owner:
  "combine_principals owner (Some extras) = extras @ [owner] \<and>
   length (combine_principals owner (Some extras)) = length extras + 1 \<and>
   last (combine_principals owner (Some extras)) = owner \<and>
   count_list (combine_principals owner (Some extras)) owner = count_list extras owner + 1"
  by (simp add: combine_principals_def)

section \<open>Parameter validation\<close>

text \<open>What \<open>get_params\<close> returns when \<open>BucketName\<close> is there.\<close>

lemma get_params_valid:
  assumes "map_of event ''ResourceProperties'' = Some (JDict parameters)"
      and "dict_get parameters ''BucketName'' \<noteq> JNull"
  shows "get_params event =
     Inr (dict_get parameters ''BucketName'',
          filter truthy
            (if \<not> truthy (dict_get parameters ''ExtraPrincipalArns'') then []
             else if \<not> is_list (dict_get parameters ''ExtraPrincipalArns'')
               then [dict_get parameters ''ExtraPrincipalArns'']
             else (case dict_get parameters ''ExtraPrincipalArns'' of JList xs \<Rightarrow> xs | _ \<Rightarrow> [])),
          lower (py_str (case map_of parameters ''RequireEncryption'' of
                           None \<Rightarrow> JStr ''false'' | Some v \<Rightarrow> v)) = ''true'')"
  using assms by (simp add: get_params_def Let_def)

text \<open>The code compares in lower case; for \<open>true\<close> that is equality ignoring case.\<close>

lemma lower_char_t: "lower_char a = CHR ''t'' \<longleftrightarrow> same_letter a (CHR ''t'')"
  by (auto simp add: lower_char_def same_letter_def split: if_splits)

lemma lower_char_r: "lower_char a = CHR ''r'' \<longleftrightarrow> same_letter a (CHR ''r'')"
  by (auto simp add: lower_char_def same_letter_def split: if_splits)

lemma lower_char_u: "lower_char a = CHR ''u'' \<longleftrightarrow> same_letter a (CHR ''u'')"
  by (auto simp add: lower_char_def same_letter_def split: if_splits)

lemma lower_char_e: "lower_char a = CHR ''e'' \<longleftrightarrow> same_letter a (CHR ''e'')"
  by (auto simp add: lower_char_def same_letter_def split: if_splits)

lemma lower_true: "lower s = ''true'' \<longleftrightarrow> equal_ignoring_case s ''true''"
  by (auto simp add: lower_def equal_ignoring_case_def list_all2_Cons2 
        lower_char_t lower_char_r lower_char_u lower_char_e)

text \<open>
  C8. For every raw \<open>RequireEncryption\<close> value, \<open>get_params\<close> takes its string form
  (\<open>str\<close>) and yields true exactly when that string equals \<open>true\<close> ignoring case; an
  absent value yields false.
\<close>

theorem require_encryption_parsing:
  assumes "map_of event ''ResourceProperties'' = Some (JDict parameters)"
      and "dict_get parameters ''BucketName'' \<noteq> JNull"
  shows "\<exists>bucket_name extra_principals.
           get_params event =
             Inr (bucket_name, extra_principals,
                  (case map_of parameters ''RequireEncryption'' of
                     None \<Rightarrow> False
                   | Some v \<Rightarrow> equal_ignoring_case (py_str v) ''true''))"
proof (cases "map_of parameters ''RequireEncryption''")
  case None
  then show ?thesis
    using get_params_valid [OF assms] by (simp add: lower_def)
next
  case (Some v)
  then show ?thesis
    using get_params_valid [OF assms] by (simp add: lower_true)
qed

theorem require_encryption_parsing_witness:
  "\<exists>bucket_name extra_principals.
     get_params (create_event [(''BucketName'', JStr ''b''), (''RequireEncryption'', JStr ''TrUe'')]) =
       Inr (bucket_name, extra_principals, True)"
  using require_encryption_parsing
    [of "create_event [(''BucketName'', JStr ''b''), (''RequireEncryption'', JStr ''TrUe'')]"
        "[(''BucketName'', JStr ''b''), (''RequireEncryption'', JStr ''TrUe'')]"]
  by (simp add: create_event_def dict_get_def equal_ignoring_case_def same_letter_def)

text \<open>
  C9, as amended. For every raw \<open>ExtraPrincipalArns\<close> value, \<open>get_params\<close> yields the
  empty list when the value is absent or empty (falsy: \<open>None\<close>, the empty string, the
  empty list or dict, \<open>0\<close>, \<open>False\<close>), the one-element list of the value when it is
  another value that is not a list, and for a list its entries without the empty
  (falsy) ones, in their order. Only empty entries are dropped: a blank entry, a string
  of white space, is not empty and stays.
\<close>

theorem extra_principals_normalization:
  assumes "map_of event ''ResourceProperties'' = Some (JDict parameters)"
      and "dict_get parameters ''BucketName'' \<noteq> JNull"
  shows "\<exists>bucket_name require_encryption.
           get_params event =
             Inr (bucket_name,
                  (case map_of parameters ''ExtraPrincipalArns'' of
                     None \<Rightarrow> []
                   | Some v \<Rightarrow>
                       if \<not> truthy v then []
                       else (case v of JList xs \<Rightarrow> filter truthy xs | _ \<Rightarrow> [v])),
                  require_encryption)"
proof (cases "map_of parameters ''ExtraPrincipalArns''")
  case None
  then show ?thesis
    using get_params_valid [OF assms] by (simp add: dict_get_def)
next
  case (Some v)
  then show ?thesis
    using get_params_valid [OF assms] by (cases v) (simp_all add: dict_get_def)
qed

theorem extra_principals_normalization_witness:
  "\<exists>bucket_name require_encryption.
     get_params (create_event [(''BucketName'', JStr ''b''),
                               (''ExtraPrincipalArns'', JList [JStr [], JStr ''E1'', JNull, JStr ''E2''])]) =
       Inr (bucket_name, [JStr ''E1'', JStr ''E2''], require_encryption)"
  using extra_principals_normalization
    [of "create_event [(''BucketName'', JStr ''b''),
                       (''ExtraPrincipalArns'', JList [JStr [], JStr ''E1'', JNull, JStr ''E2''])]"
        "[(''BucketName'', JStr ''b''),
          (''ExtraPrincipalArns'', JList [JStr [], JStr ''E1'', JNull, JStr ''E2''])]"]
  by (simp add: create_event_def dict_get_def)

text \<open>
  Blank entries are kept: the test of the filter is \<open>if extra\<close>, and a string made of
  a space or of a tab is not empty.
\<close>

theorem blank_extra_principals_counterexample:
  "get_params (create_event [(''BucketName'', JStr ''b''),
                             (''ExtraPrincipalArns'',
                                JList [JStr '' '', JStr ''E1'', JStr [CHR 0x09], JStr []])]) =
     Inr (JStr ''b'', [JStr '' '', JStr ''E1'', JStr [CHR 0x09]], False)"
  by (simp add: get_params_def create_event_def dict_get_def lower_def lower_char_def)

text \<open>What \<open>get_params\<close> raises when \<open>BucketName\<close> is absent or \<open>None\<close>.\<close>

lemma get_params_missing:
  assumes "map_of event ''ResourceProperties'' = Some (JDict parameters)"
      and "map_of parameters ''BucketName'' = None \<or> map_of parameters ''BucketName'' = Some JNull"
  shows "get_params event = Inl (Exception ''Required parameters: BucketName'')"
  using assms by (auto simp add: get_params_def dict_get_def)

text \<open>
  C4, as amended. For every event whose resource properties have an absent or null
  \<open>BucketName\<close>, \<open>get_params\<close> raises the exception \<open>Required parameters: BucketName\<close>,
  and \<open>create\<close> and \<open>delete\<close> raise it with the world as it was: no call of the Bucket
  Store is made.
\<close>

theorem missing_bucket_name_aborts:
  assumes "map_of event ''ResourceProperties'' = Some (JDict parameters)"
      and "map_of parameters ''BucketName'' = None \<or> map_of parameters ''BucketName'' = Some JNull"
  shows "get_params event = Inl (Exception ''Required parameters: BucketName'') \<and>
         create client dumps event ctx w = (Inl (Exception ''Required parameters: BucketName''), w) \<and>
         delete client event ctx w = (Inl (Exception ''Required parameters: BucketName''), w)"
  using get_params_missing [OF assms] by (simp add: create_def delete_def)

theorem missing_bucket_name_aborts_witness:
  "create (one_bucket ''my-bucket'' owner_tagging) json_dumps
      (create_event [(''RequireEncryption'', JStr ''true'')]) \<lparr>aws_request_id = ''r1''\<rparr> (start None) =
     (Inl (Exception ''Required parameters: BucketName''), start None) \<and>
   delete (one_bucket ''my-bucket'' owner_tagging)
      (delete_event [(''BucketName'', JNull)]) \<lparr>aws_request_id = ''r1''\<rparr> (start (Some ''p'')) =
     (Inl (Exception ''Required parameters: BucketName''), start (Some ''p''))"
  using missing_bucket_name_aborts
          [of "create_event [(''RequireEncryption'', JStr ''true'')]"
              "[(''RequireEncryption'', JStr ''true'')]"
              "one_bucket ''my-bucket'' owner_tagging" json_dumps "\<lparr>aws_request_id = ''r1''\<rparr>"
              "start None"]
        missing_bucket_name_aborts
          [of "delete_event [(''BucketName'', JNull)]" "[(''BucketName'', JNull)]"
              "one_bucket ''my-bucket'' owner_tagging" json_dumps "\<lparr>aws_request_id = ''r1''\<rparr>"
              "start (Some ''p'')"]
  by (simp add: create_event_def delete_event_def)

text \<open>
  An empty string is not \<open>None\<close>: with \<open>BucketName\<close> the empty string, \<open>get_params\<close>
  returns, and \<open>create\<close> and \<open>delete\<close> go on to call the Bucket Store with it.
\<close>

theorem empty_bucket_name_counterexample:
  "get_params (create_event [(''BucketName'', JStr [])]) = Inr (JStr [], [], False) \<and>
   create (one_bucket ''my-bucket'' owner_tagging) json_dumps
      (create_event [(''BucketName'', JStr [])]) \<lparr>aws_request_id = ''r1''\<rparr> (start None) =
     (Inl (ClientError ''NoSuchBucket''), \<lparr>service = None, calls = [GetBucketTagging (JStr [])]\<rparr>) \<and>
   delete (one_bucket ''my-bucket'' owner_tagging)
      (delete_event [(''BucketName'', JStr [])]) \<lparr>aws_request_id = ''r1''\<rparr> (start None) =
     (Inl (ClientError ''NoSuchBucket''), \<lparr>service = None, calls = [DeleteBucketPolicy (JStr [])]\<rparr>)"
  by (simp add: get_params_def create_event_def delete_event_def dict_get_def lower_def
        lower_char_def create_def delete_def get_bucket_tags_def s3_get_bucket_tagging_def
        s3_delete_bucket_policy_def one_bucket_def start_def)

section \<open>Principal resolution\<close>

text \<open>On a list of dicts, the loop of \<open>get_principal_tag\<close> finds the first matching tag.\<close>

lemma find_principal_tag_dicts:
  "find_principal_tag (map JDict tags) =
     (case find (\<lambda>t. dict_get t ''Key'' = JStr principal_tag_name) tags of
        None \<Rightarrow>
          Inl (ValueError (''Could not derive a value for '' @ principal_tag_name @ '' from tags''))
      | Some t \<Rightarrow> Inr (dict_get t ''Value''))"
  by (induction tags) simp_all

text \<open>
  C7. When the Bucket Store's response has no tag set or an empty one, \<open>get_bucket_tags\<close>
  raises the exception \<open>No tags returned\<close>, and \<open>create\<close> fails with it right after the
  tag fetch, before any scan. When the tag set is a non-empty list of tags,
  \<open>get_bucket_tags\<close> returns it, and \<open>get_principal_tag\<close> returns the value of the first
  tag whose key is \<open>aws:servicecatalog:provisioningPrincipalArn\<close>; when no tag has that
  key it raises a \<open>ValueError\<close>, with which \<open>create\<close> fails. The two errors differ.
\<close>

theorem principal_resolution:
  assumes "get_params event = Inr (bucket, extras, enc)"
      and "get_bucket_tagging client bucket (service w) = (Inr response, s')"
  shows
    "(dict_get response ''TagSet'' = JNull \<or> dict_get response ''TagSet'' = JList [] \<longrightarrow>
        get_bucket_tags client bucket w =
          (Inl (Exception (''No tags returned, received: '' @ py_str (JDict response))),
           \<lparr>service = s', calls = calls w @ [GetBucketTagging bucket]\<rparr>) \<and>
        create client dumps event ctx w =
          (Inl (Exception (''No tags returned, received: '' @ py_str (JDict response))),
           \<lparr>service = s', calls = calls w @ [GetBucketTagging bucket]\<rparr>)) \<and>
     (dict_get response ''TagSet'' = JList (map JDict tags) \<and> tags \<noteq> [] \<longrightarrow>
        get_bucket_tags client bucket w =
          (Inr (JList (map JDict tags)),
           \<lparr>service = s', calls = calls w @ [GetBucketTagging bucket]\<rparr>) \<and>
        (case find (\<lambda>t. dict_get t ''Key'' = JStr ''aws:servicecatalog:provisioningPrincipalArn'')
                tags of
           None \<Rightarrow>
             get_principal_tag (JList (map JDict tags)) =
               Inl (ValueError ''Could not derive a value for aws:servicecatalog:provisioningPrincipalArn from tags'') \<and>
             create client dumps event ctx w =
               (Inl (ValueError ''Could not derive a value for aws:servicecatalog:provisioningPrincipalArn from tags''),
                \<lparr>service = s', calls = calls w @ [GetBucketTagging bucket]\<rparr>)
         | Some t \<Rightarrow> get_principal_tag (JList (map JDict tags)) = Inr (dict_get t ''Value''))) \<and>
     Exception (''No tags returned, received: '' @ py_str (JDict response)) \<noteq>
       ValueError ''Could not derive a value for aws:servicecatalog:provisioningPrincipalArn from tags''"
proof -
  let ?w' = "\<lparr>service = s', calls = calls w @ [GetBucketTagging bucket]\<rparr>"
  let ?no_tags = "Exception (''No tags returned, received: '' @ py_str (JDict response))"
  have call: "s3_get_bucket_tagging client bucket w = (Inr response, ?w')"
    using assms(2) by (simp add: s3_get_bucket_tagging_def)
  have empty: "get_bucket_tags client bucket w = (Inl ?no_tags, ?w')"
    if "dict_get response ''TagSet'' = JNull \<or> dict_get response ''TagSet'' = JList []"
    using that call by (auto simp add: get_bucket_tags_def Let_def)
  have present: "get_bucket_tags client bucket w = (Inr (JList (map JDict tags)), ?w')"
    if "dict_get response ''TagSet'' = JList (map JDict tags)" "tags \<noteq> []"
    using that call by (simp add: get_bucket_tags_def Let_def)
  have scan: "get_principal_tag (JList (map JDict tags)) =
     (case find (\<lambda>t. dict_get t ''Key'' = JStr ''aws:servicecatalog:provisioningPrincipalArn'') tags of
        None \<Rightarrow>
          Inl (ValueError ''Could not derive a value for aws:servicecatalog:provisioningPrincipalArn from tags'')
      | Some t \<Rightarrow> Inr (dict_get t ''Value''))"
    by (simp add: get_principal_tag_def find_principal_tag_dicts principal_tag_name_def
          split: option.splits)
  show ?thesis
    using assms(1) empty present scan
    by (auto simp add: create_def split: option.splits)
qed

theorem principal_resolution_witness:
  "get_bucket_tags
     (one_bucket ''my-bucket''
        [(''TagSet'',
          JList (map JDict
            [[(''Key'', JStr ''Name''), (''Value'', JStr ''my-bucket'')],
             [(''Key'', JStr ''aws:servicecatalog:provisioningPrincipalArn''), (''Value'', JStr ''Owner'')],
             [(''Key'', JStr ''aws:servicecatalog:provisioningPrincipalArn''), (''Value'', JStr ''Other'')]]))])
     (JStr ''my-bucket'') (start None) =
     (Inr (JList (map JDict
            [[(''Key'', JStr ''Name''), (''Value'', JStr ''my-bucket'')],
             [(''Key'', JStr ''aws:servicecatalog:provisioningPrincipalArn''), (''Value'', JStr ''Owner'')],
             [(''Key'', JStr ''aws:servicecatalog:provisioningPrincipalArn''), (''Value'', JStr ''Other'')]])),
      \<lparr>service = None, calls = [GetBucketTagging (JStr ''my-bucket'')]\<rparr>) \<and>
   get_principal_tag
     (JList (map JDict
            [[(''Key'', JStr ''Name''), (''Value'', JStr ''my-bucket'')],
             [(''Key'', JStr ''aws:servicecatalog:provisioningPrincipalArn''), (''Value'', JStr ''Owner'')],
             [(''Key'', JStr ''aws:servicecatalog:provisioningPrincipalArn''), (''Value'', JStr ''Other'')]])) =
     Inr (JStr ''Owner'')"
  using principal_resolution
    [where event = "create_event [(''BucketName'', JStr ''my-bucket'')]"
       and bucket = "JStr ''my-bucket''" and extras = "[]" and enc = False
       and client = "one_bucket ''my-bucket'' [(''TagSet'', JList (map JDict
            [[(''Key'', JStr ''Name''), (''Value'', JStr ''my-bucket'')],
             [(''Key'', JStr ''aws:servicecatalog:provisioningPrincipalArn''), (''Value'', JStr ''Owner'')],
             [(''Key'', JStr ''aws:servicecatalog:provisioningPrincipalArn''), (''Value'', JStr ''Other'')]]))]"
       and w = "start None"
       and response = "[(''TagSet'', JList (map JDict
            [[(''Key'', JStr ''Name''), (''Value'', JStr ''my-bucket'')],
             [(''Key'', JStr ''aws:servicecatalog:provisioningPrincipalArn''), (''Value'', JStr ''Owner'')],
             [(''Key'', JStr ''aws:servicecatalog:provisioningPrincipalArn''), (''Value'', JStr ''Other'')]]))]"
       and s' = None
       and tags = "[[(''Key'', JStr ''Name''), (''Value'', JStr ''my-bucket'')],
             [(''Key'', JStr ''aws:servicecatalog:provisioningPrincipalArn''), (''Value'', JStr ''Owner'')],
             [(''Key'', JStr ''aws:servicecatalog:provisioningPrincipalArn''), (''Value'', JStr ''Other'')]]"
       and dumps = json_dumps and ctx = "\<lparr>aws_request_id = ''r1''\<rparr>"]
  by (simp add: get_params_def create_event_def dict_get_def lower_def lower_char_def
        one_bucket_def start_def)

section \<open>The lifecycle operations\<close>

text \<open>
  \<open>create\<close> once the policy is attached, and what a returning \<open>create\<close> has returned.
\<close>

lemma create_after_attach:
  assumes "get_params event = Inr (bucket_name, extras, enc)"
      and "get_bucket_tags client bucket_name w = (Inr tags, wa)"
      and "get_principal_tag tags = Inr owner"
      and "attach_policy client bucket_name
             (create_policy_document dumps bucket_name (combine_principals owner (Some extras)) enc)
             wa = (Inr (), wb)"
  shows "create client dumps event ctx w =
           (case subscript event ''RequestType'' of
              Inl e \<Rightarrow> (Inl e, wb)
            | Inr request_type \<Rightarrow>
                if request_type = JStr ''Update'' then (subscript event ''PhysicalResourceId'', wb)
                else (Inr (JStr (''BucketPolicy_'' @ py_str bucket_name @ ''_'' @ aws_request_id ctx)),
                      wb))"
  using assms by (simp add: create_def Let_def split: sum.splits)

lemma create_returns:
  assumes "create client dumps event ctx w = (Inr r, w')"
  shows "\<exists>bucket_name extras enc request_type.
           get_params event = Inr (bucket_name, extras, enc) \<and>
           map_of event ''RequestType'' = Some request_type \<and>
           (if request_type = JStr ''Update'' then map_of event ''PhysicalResourceId'' = Some r
            else r = JStr (''BucketPolicy_'' @ py_str bucket_name @ ''_'' @ aws_request_id ctx))"
  using assms
  by (auto simp add: create_def Let_def subscript_def
        split: sum.splits prod.splits option.splits if_splits)

text \<open>
  C3. When validation, principal resolution and the attachment of the policy succeed,
  \<open>create\<close> returns, for an Update event carrying the physical id \<open>X\<close>, that \<open>X\<close>
  unchanged, whatever the resource properties are; for a Create event it returns
  \<open>BucketPolicy_\<close>, the bucket name, \<open>_\<close> and the request id of the invocation, which
  contains the bucket name. Conversely, whatever \<open>create\<close> returns is that id: the prior
  one for an Update event, the generated one for a Create event.
\<close>

theorem physical_resource_id:
  "(get_params event = Inr (JStr b, extras, enc) \<and>
    get_bucket_tags client (JStr b) w = (Inr tags, wa) \<and>
    get_principal_tag tags = Inr owner \<and>
    attach_policy client (JStr b)
      (create_policy_document dumps (JStr b) (combine_principals owner (Some extras)) enc)
      wa = (Inr (), wb) \<longrightarrow>
      (map_of event ''RequestType'' = Some (JStr ''Update'') \<and>
       map_of event ''PhysicalResourceId'' = Some X \<longrightarrow>
         create client dumps event ctx w = (Inr X, wb)) \<and>
      (map_of event ''RequestType'' = Some (JStr ''Create'') \<longrightarrow>
         create client dumps event ctx w =
           (Inr (JStr (''BucketPolicy_'' @ b @ ''_'' @ aws_request_id ctx)), wb) \<and>
         (\<exists>pre suf. ''BucketPolicy_'' @ b @ ''_'' @ aws_request_id ctx = pre @ b @ suf))) \<and>
   (create client dumps event ctx w = (Inr r, w') \<longrightarrow>
      (map_of event ''RequestType'' = Some (JStr ''Update'') \<longrightarrow>
         map_of event ''PhysicalResourceId'' = Some r) \<and>
      (map_of event ''RequestType'' = Some (JStr ''Create'') \<longrightarrow>
         (\<exists>bucket_name extras' enc'.
            get_params event = Inr (bucket_name, extras', enc') \<and>
            r = JStr (''BucketPolicy_'' @ py_str bucket_name @ ''_'' @ aws_request_id ctx))))"
proof (intro conjI impI)
  assume steps:
    "get_params event = Inr (JStr b, extras, enc) \<and>
     get_bucket_tags client (JStr b) w = (Inr tags, wa) \<and>
     get_principal_tag tags = Inr owner \<and>
     attach_policy client (JStr b)
       (create_policy_document dumps (JStr b) (combine_principals owner (Some extras)) enc)
       wa = (Inr (), wb)"
  then have run: "create client dumps event ctx w =
      (case subscript event ''RequestType'' of
         Inl e \<Rightarrow> (Inl e, wb)
       | Inr request_type \<Rightarrow>
           if request_type = JStr ''Update'' then (subscript event ''PhysicalResourceId'', wb)
           else (Inr (JStr (''BucketPolicy_'' @ py_str (JStr b) @ ''_'' @ aws_request_id ctx)), wb))"
    using create_after_attach [of event "JStr b" extras enc client w tags wa owner dumps wb ctx]
    by simp
  {
    assume "map_of event ''RequestType'' = Some (JStr ''Update'') \<and>
            map_of event ''PhysicalResourceId'' = Some X"
    then show "create client dumps event ctx w = (Inr X, wb)"
      using run by (simp add: subscript_def)
  }
  {
    assume "map_of event ''RequestType'' = Some (JStr ''Create'')"
    then show "create client dumps event ctx w =
        (Inr (JStr (''BucketPolicy_'' @ b @ ''_'' @ aws_request_id ctx)), wb)"
      using run by (simp add: subscript_def)
  }
  show "\<exists>pre suf. ''BucketPolicy_'' @ b @ ''_'' @ aws_request_id ctx = pre @ b @ suf"
    by blast
next
  assume ret: "create client dumps event ctx w = (Inr r, w')"
  {
    assume "map_of event ''RequestType'' = Some (JStr ''Update'')"
    then show "map_of event ''PhysicalResourceId'' = Some r"
      using create_returns [OF ret] by auto
  }
  {
    assume "map_of event ''RequestType'' = Some (JStr ''Create'')"
    then show "\<exists>bucket_name extras' enc'.
        get_params event = Inr (bucket_name, extras', enc') \<and>
        r = JStr (''BucketPolicy_'' @ py_str bucket_name @ ''_'' @ aws_request_id ctx)"
      using create_returns [OF ret] by auto
  }
qed

theorem physical_resource_id_witness:
  "fst (create (one_bucket ''my-bucket'' owner_tagging) json_dumps
          (update_event [(''BucketName'', JStr ''my-bucket'')])
          \<lparr>aws_request_id = ''r1''\<rparr> (start None)) = Inr (JStr ''X'') \<and>
   fst (create (one_bucket ''my-bucket'' owner_tagging) json_dumps
          (create_event [(''BucketName'', JStr ''my-bucket'')])
          \<lparr>aws_request_id = ''r1''\<rparr> (start None)) = Inr (JStr ''BucketPolicy_my-bucket_r1'')"
  using physical_resource_id
    [where event = "update_event [(''BucketName'', JStr ''my-bucket'')]"
       and b = "''my-bucket''" and extras = "[]" and enc = False
       and client = "one_bucket ''my-bucket'' owner_tagging" and w = "start None"
       and tags = "dict_get owner_tagging ''TagSet''"
       and wa = "\<lparr>service = None, calls = [GetBucketTagging (JStr ''my-bucket'')]\<rparr>"
       and owner = "JStr ''arn:aws:iam::111:role/Owner''" and dumps = json_dumps
       and wb = "snd (attach_policy (one_bucket ''my-bucket'' owner_tagging) (JStr ''my-bucket'')
                   (create_policy_document json_dumps (JStr ''my-bucket'')
                      (combine_principals (JStr ''arn:aws:iam::111:role/Owner'') (Some [])) False)
                   \<lparr>service = None, calls = [GetBucketTagging (JStr ''my-bucket'')]\<rparr>)"
       and X = "JStr ''X''" and ctx = "\<lparr>aws_request_id = ''r1''\<rparr>"
       and r = "JStr ''X''" and w' = "start None"]
    physical_resource_id
    [where event = "create_event [(''BucketName'', JStr ''my-bucket'')]"
       and b = "''my-bucket''" and extras = "[]" and enc = False
       and client = "one_bucket ''my-bucket'' owner_tagging" and w = "start None"
       and tags = "dict_get owner_tagging ''TagSet''"
       and wa = "\<lparr>service = None, calls = [GetBucketTagging (JStr ''my-bucket'')]\<rparr>"
       and owner = "JStr ''arn:aws:iam::111:role/Owner''" and dumps = json_dumps
       and wb = "snd (attach_policy (one_bucket ''my-bucket'' owner_tagging) (JStr ''my-bucket'')
                   (create_policy_document json_dumps (JStr ''my-bucket'')
                      (combine_principals (JStr ''arn:aws:iam::111:role/Owner'') (Some [])) False)
                   \<lparr>service = None, calls = [GetBucketTagging (JStr ''my-bucket'')]\<rparr>)"
       and X = "JStr ''X''" and ctx = "\<lparr>aws_request_id = ''r1''\<rparr>"
       and r = "JStr ''X''" and w' = "start None"]
  by (simp add: get_params_def update_event_def create_event_def dict_get_def lower_def
        lower_char_def get_bucket_tags_def s3_get_bucket_tagging_def get_principal_tag_def
        principal_tag_name_def attach_policy_def s3_put_bucket_policy_def one_bucket_def
        owner_tagging_def start_def)

text \<open>
  The example of the specification, run on the one-bucket store: the owner from the tag
  comes after the extra principal, the document is built with encryption, and the
  Bucket Store sees the tag fetch and then the attachment of that document.
\<close>

lemma end_to_end_example:
  "create (one_bucket ''my-bucket'' owner_tagging) json_dumps
     (create_event [(''BucketName'', JStr ''my-bucket''),
                    (''ExtraPrincipalArns'', JList [JStr ''arn:aws:iam::222:role/Extra'']),
                    (''RequireEncryption'', JStr ''true'')])
     \<lparr>aws_request_id = ''r1''\<rparr> (start None) =
   (Inr (JStr ''BucketPolicy_my-bucket_r1''),
    \<lparr>service =
       Some (create_policy_document json_dumps (JStr ''my-bucket'')
               [JStr ''arn:aws:iam::222:role/Extra'', JStr ''arn:aws:iam::111:role/Owner''] True),
     calls =
       [GetBucketTagging (JStr ''my-bucket''),
        PutBucketPolicy (JStr ''my-bucket'')
          (create_policy_document json_dumps (JStr ''my-bucket'')
             [JStr ''arn:aws:iam::222:role/Extra'', JStr ''arn:aws:iam::111:role/Owner''] True)]\<rparr>)"
  by (simp add: create_def get_params_def create_event_def dict_get_def lower_def
        lower_char_def get_bucket_tags_def s3_get_bucket_tagging_def get_principal_tag_def
        principal_tag_name_def combine_principals_def attach_policy_def
        s3_put_bucket_policy_def subscript_def one_bucket_def owner_tagging_def start_def
        Let_def)

text \<open>
  C5, as amended. For every Delete event with valid parameters that carries the physical
  id \<open>X\<close>, \<open>delete\<close> makes one call of the Bucket Store, the detachment of the policy;
  it returns \<open>X\<close> when that call returns, and raises the error of the Bucket Store
  when that call raises one.
\<close>

theorem delete_propagates_store_result:
  assumes "get_params event = Inr (bucket_name, extras, enc)"
      and "map_of event ''PhysicalResourceId'' = Some X"
      and "delete_bucket_policy client bucket_name (service w) = (r, s')"
  shows "delete client event ctx w =
           ((case r of Inl e \<Rightarrow> Inl e | Inr u \<Rightarrow> Inr X),
            \<lparr>service = s', calls = calls w @ [DeleteBucketPolicy bucket_name]\<rparr>)"
  using assms
  by (cases r) (simp_all add: delete_def s3_delete_bucket_policy_def subscript_def)

theorem delete_propagates_store_result_witness:
  "delete (one_bucket ''my-bucket'' owner_tagging)
      (delete_event [(''BucketName'', JStr ''my-bucket'')]) \<lparr>aws_request_id = ''r1''\<rparr>
      (start (Some ''p'')) =
     (Inr (JStr ''X''), \<lparr>service = None, calls = [DeleteBucketPolicy (JStr ''my-bucket'')]\<rparr>)"
  using delete_propagates_store_result
          [of "delete_event [(''BucketName'', JStr ''my-bucket'')]" "JStr ''my-bucket''" "[]" False
              "JStr ''X''" "one_bucket ''my-bucket'' owner_tagging" "start (Some ''p'')"
              "Inr ()" None "\<lparr>aws_request_id = ''r1''\<rparr>"]
  by (simp add: get_params_def delete_event_def dict_get_def lower_def lower_char_def
        one_bucket_def start_def)

text \<open>
  When the Bucket Store reports that no policy is present, \<open>delete\<close> raises that error:
  it does not return the physical id.
\<close>

theorem delete_absent_policy_counterexample:
  "delete (one_bucket ''my-bucket'' owner_tagging)
      (delete_event [(''BucketName'', JStr ''my-bucket'')]) \<lparr>aws_request_id = ''r1''\<rparr>
      (start None) =
     (Inl (ClientError ''NoSuchBucketPolicy''),
      \<lparr>service = None, calls = [DeleteBucketPolicy (JStr ''my-bucket'')]\<rparr>)"
  by (simp add: get_params_def delete_event_def dict_get_def lower_def lower_char_def
        delete_def s3_delete_bucket_policy_def one_bucket_def start_def)

end
